theory Spec2Isabelle
  imports Main "HOL-Library.Char_ord" "HOL-Library.List_Lexorder"
begin

section \<open>Python values the scheduler handles\<close>

text \<open>
  The exceptions that the modelled code can meet. A computation that may raise returns
  \<open>pyexn + 'a\<close>, with \<open>Inl\<close> for the exception.
\<close>

datatype pyexn = ValueError | TypeError | OverflowError | AttributeError | OSError

text \<open>
  A \<open>datetime\<close> is kept as the number of microseconds that its wall-clock fields
  (year ... microsecond) lie after 0001-01-01T00:00:00, together with the UTC offset of
  its \<open>tzinfo\<close> in microseconds; \<open>None\<close> is a naive datetime. A \<open>timedelta\<close> is a
  number of microseconds.
\<close>

record datetime =
  ticks :: int
  utcoffset :: "int option"

type_synonym timedelta = int

definition us_per_day :: int where
  "us_per_day = 86400000000"

text \<open>\<open>date.max.toordinal()\<close> is 3652059: the last representable day is 9999-12-31.\<close>

definition MAXORDINAL :: int where
  "MAXORDINAL = 3652059"

definition datetime_in_range :: "int \<Rightarrow> bool" where
  "datetime_in_range t \<longleftrightarrow> 0 \<le> t \<and> t < MAXORDINAL * us_per_day"

text \<open>A timedelta holds between -999999999 and 999999999 whole days (rounded down).\<close>

definition timedelta_in_range :: "timedelta \<Rightarrow> bool" where
  "timedelta_in_range td \<longleftrightarrow> - 999999999 \<le> td div us_per_day \<and> td div us_per_day \<le> 999999999"

definition timedelta_days :: "int \<Rightarrow> pyexn + timedelta" where
  \<comment> \<open>\<open>timedelta(days=d)\<close>\<close>
  "timedelta_days d = (if \<bar>d\<bar> \<le> 999999999 then Inr (d * us_per_day) else Inl OverflowError)"

definition timedelta_sub :: "timedelta \<Rightarrow> timedelta \<Rightarrow> pyexn + timedelta" where
  \<comment> \<open>\<open>a - b\<close> on timedeltas\<close>
  "timedelta_sub a b = (if timedelta_in_range (a - b) then Inr (a - b) else Inl OverflowError)"

definition datetime_add :: "datetime \<Rightarrow> timedelta \<Rightarrow> pyexn + datetime" where
  \<comment> \<open>\<open>dt + td\<close>: the fields move, the tzinfo stays; out of range raises\<close>
  "datetime_add dt td =
     (if datetime_in_range (ticks dt + td) then Inr (dt\<lparr>ticks := ticks dt + td\<rparr>)
      else Inl OverflowError)"

definition datetime_ge :: "datetime \<Rightarrow> datetime \<Rightarrow> pyexn + bool" where
  \<comment> \<open>\<open>a >= b\<close>: aware datetimes compare as instants, naive ones by their fields, and a
      naive one against an aware one raises TypeError\<close>
  "datetime_ge a b =
     (case (utcoffset a, utcoffset b) of
        (None, None) \<Rightarrow> Inr (ticks b \<le> ticks a)
      | (Some oa, Some ob) \<Rightarrow> Inr (ticks b - ob \<le> ticks a - oa)
      | _ \<Rightarrow> Inl TypeError)"

text \<open>
  Concrete datetimes are built as \<open>datetime(y, m, d, tzinfo=timezone.utc)\<close> builds them,
  from the proleptic Gregorian ordinal of the day (\<open>date(y, m, d).toordinal()\<close>).
\<close>

definition is_leap :: "int \<Rightarrow> bool" where
  "is_leap y \<longleftrightarrow> y mod 4 = 0 \<and> (y mod 100 \<noteq> 0 \<or> y mod 400 = 0)"

definition days_before_year :: "int \<Rightarrow> int" where
  "days_before_year year = (let y = year - 1 in y * 365 + y div 4 - y div 100 + y div 400)"

definition days_before_month :: "int \<Rightarrow> nat \<Rightarrow> int" where
  "days_before_month year month =
     [0, 0, 31, 59, 90, 120, 151, 181, 212, 243, 273, 304, 334] ! month
       + (if 2 < month \<and> is_leap year then 1 else 0)"

definition ymd2ord :: "int \<Rightarrow> nat \<Rightarrow> int \<Rightarrow> int" where
  "ymd2ord year month day = days_before_year year + days_before_month year month + day"

definition utc_midnight :: "int \<Rightarrow> nat \<Rightarrow> int \<Rightarrow> datetime" where
  "utc_midnight year month day =
     \<lparr>ticks = (ymd2ord year month day - 1) * us_per_day, utcoffset = Some 0\<rparr>"

definition naive_midnight :: "int \<Rightarrow> nat \<Rightarrow> int \<Rightarrow> datetime" where
  "naive_midnight year month day =
     \<lparr>ticks = (ymd2ord year month day - 1) * us_per_day, utcoffset = None\<rparr>"

section \<open>The data model (config.py, scheduler.py)\<close>

text \<open>
  Python strings are lists of characters. The field \<open>id\<close> of the source is \<open>id'\<close> here.
\<close>

record VaultItem =
  id' :: string
  name :: string
  user_id :: "string option"
  collection_ids :: "string list"
  revision_date :: datetime
  last_rotated_at :: "datetime option"

definition effective_rotation_source :: "VaultItem \<Rightarrow> datetime" where
  \<comment> \<open>\<open>self.last_rotated_at or self.revision_date\<close>; a datetime is always truthy\<close>
  "effective_rotation_source it =
     (case last_rotated_at it of Some d \<Rightarrow> d | None \<Rightarrow> revision_date it)"

record RotationPolicy =
  frequency_days :: int
  grace_period_days :: int
  target_collections :: "string list option"
  target_users :: "string list option"
  send_digest :: bool

definition frequency_delta :: "RotationPolicy \<Rightarrow> pyexn + timedelta" where
  "frequency_delta policy = timedelta_days (frequency_days policy)"

definition grace_delta :: "RotationPolicy \<Rightarrow> pyexn + timedelta" where
  "grace_delta policy = timedelta_days (grace_period_days policy)"

record RotationCandidate =
  item :: VaultItem
  due_at :: datetime

section \<open>The candidate selector\<close>

text \<open>
  The loop of \<open>_select_due_items\<close>: \<open>due_items\<close> is the list built so far. An exception
  of the date arithmetic leaves the loop and the call.
\<close>

fun select_loop ::
  "datetime \<Rightarrow> timedelta \<Rightarrow> timedelta \<Rightarrow> VaultItem list \<Rightarrow> RotationCandidate list
    \<Rightarrow> pyexn + RotationCandidate list" where
  "select_loop now frequency reminder_threshold [] due_items = Inr due_items"
| "select_loop now frequency reminder_threshold (it # items) due_items =
     (let reference = effective_rotation_source it in
      case datetime_add reference frequency of
        Inl e \<Rightarrow> Inl e
      | Inr due \<Rightarrow>
          (case datetime_add reference reminder_threshold of
             Inl e \<Rightarrow> Inl e
           | Inr remind_at \<Rightarrow>
               (case datetime_ge now remind_at of
                  Inl e \<Rightarrow> Inl e
                | Inr True \<Rightarrow>
                    select_loop now frequency reminder_threshold items
                      (due_items @ [\<lparr>item = it, due_at = due\<rparr>])
                | Inr False \<Rightarrow>
                    select_loop now frequency reminder_threshold items due_items)))"

definition select_due_items ::
  "RotationPolicy \<Rightarrow> datetime \<Rightarrow> VaultItem list \<Rightarrow> pyexn + RotationCandidate list" where
  "select_due_items policy now items =
     (case frequency_delta policy of
        Inl e \<Rightarrow> Inl e
      | Inr frequency \<Rightarrow>
          (case grace_delta policy of
             Inl e \<Rightarrow> Inl e
           | Inr grace \<Rightarrow>
               (case timedelta_sub frequency grace of
                  Inl e \<Rightarrow> Inl e
                | Inr reminder_threshold \<Rightarrow>
                    select_loop now frequency reminder_threshold items [])))"

text \<open>
  The vocabulary of the selector's claim: the instant a datetime denotes (a naive one read
  as UTC), the condition under which an item is due, and the candidate emitted for it.
\<close>

definition instant :: "datetime \<Rightarrow> int" where
  "instant dt = ticks dt - (case utcoffset dt of None \<Rightarrow> 0 | Some off \<Rightarrow> off)"

definition is_due :: "RotationPolicy \<Rightarrow> datetime \<Rightarrow> VaultItem \<Rightarrow> bool" where
  "is_due policy now it \<longleftrightarrow>
     instant (effective_rotation_source it)
       + (frequency_days policy - grace_period_days policy) * us_per_day \<le> instant now"

definition candidate_for :: "RotationPolicy \<Rightarrow> VaultItem \<Rightarrow> RotationCandidate" where
  "candidate_for policy it =
     \<lparr>item = it,
      due_at = (effective_rotation_source it)
        \<lparr>ticks := ticks (effective_rotation_source it) + frequency_days policy * us_per_day\<rparr>\<rparr>"

text \<open>
  The date arithmetic of one item raises nothing: both sums stay in the range of
  \<open>datetime\<close>, and the item's timestamp is aware exactly when \<open>now\<close> is.
\<close>

definition item_arith_ok :: "RotationPolicy \<Rightarrow> datetime \<Rightarrow> VaultItem \<Rightarrow> bool" where
  "item_arith_ok policy now it \<longleftrightarrow>
     datetime_in_range
       (ticks (effective_rotation_source it) + frequency_days policy * us_per_day) \<and>
     datetime_in_range
       (ticks (effective_rotation_source it)
          + (frequency_days policy - grace_period_days policy) * us_per_day) \<and>
     (utcoffset (effective_rotation_source it) = None) = (utcoffset now = None)"

definition policy_arith_ok :: "RotationPolicy \<Rightarrow> bool" where
  "policy_arith_ok policy \<longleftrightarrow>
     \<bar>frequency_days policy\<bar> \<le> 999999999 \<and> \<bar>grace_period_days policy\<bar> \<le> 999999999 \<and>
     \<bar>frequency_days policy - grace_period_days policy\<bar> \<le> 999999999"

section \<open>Raw records and the library\<close>

text \<open>
  A raw item record is a dictionary of JSON values, as \<open>response.json()\<close> yields them
  (numbers with a fraction are left out).
\<close>

datatype pyval =
    PNone
  | PBool bool
  | PInt int
  | PStr string
  | PList "pyval list"
  | PDict "(string \<times> pyval) list"

type_synonym payload = "string \<rightharpoonup> pyval"

text \<open>
  The functions of the standard library that the code calls and this development does not
  define: the two timestamp parsers and \<open>json.loads\<close>, which raise or return;
  \<open>datetime.isoformat\<close>; SHA-256 with its hexadecimal rendering; and \<open>str\<close> on a list or
  a dictionary.
\<close>

record pylib =
  fromisoformat :: "string \<Rightarrow> pyexn + datetime"
  strptime :: "string \<Rightarrow> string \<Rightarrow> pyexn + datetime"
  isoformat :: "datetime \<Rightarrow> string"
  sha256_hexdigest :: "string \<Rightarrow> string"
  json_loads :: "string \<Rightarrow> pyexn + pyval"
  str_compound :: "pyval \<Rightarrow> string"

fun truthy :: "pyval \<Rightarrow> bool" where
  "truthy PNone = False"
| "truthy (PBool b) = b"
| "truthy (PInt i) = (i \<noteq> 0)"
| "truthy (PStr s) = (s \<noteq> [])"
| "truthy (PList xs) = (xs \<noteq> [])"
| "truthy (PDict kvs) = (kvs \<noteq> [])"

definition py_or :: "pyval \<Rightarrow> pyval \<Rightarrow> pyval" where
  \<comment> \<open>\<open>a or b\<close>\<close>
  "py_or a b = (if truthy a then a else b)"

fun digits_of :: "nat \<Rightarrow> string" where
  "digits_of n =
     (if n < 10 then [''0123456789'' ! n]
      else digits_of (n div 10) @ [''0123456789'' ! (n mod 10)])"

declare digits_of.simps [simp del]

definition str_int :: "int \<Rightarrow> string" where
  \<comment> \<open>\<open>str(i)\<close> for an integer\<close>
  "str_int i = (if i < 0 then CHR ''-'' # digits_of (nat (- i)) else digits_of (nat i))"

fun py_str :: "pylib \<Rightarrow> pyval \<Rightarrow> string" where
  "py_str lib PNone = ''None''"
| "py_str lib (PBool b) = (if b then ''True'' else ''False'')"
| "py_str lib (PInt i) = str_int i"
| "py_str lib (PStr s) = s"
| "py_str lib v = str_compound lib v"

definition get :: "payload \<Rightarrow> string \<Rightarrow> pyval" where
  \<comment> \<open>\<open>payload.get(key)\<close>\<close>
  "get p k = (case p k of None \<Rightarrow> PNone | Some v \<Rightarrow> v)"

definition get_default :: "payload \<Rightarrow> string \<Rightarrow> pyval \<Rightarrow> pyval" where
  \<comment> \<open>\<open>payload.get(key, default)\<close>\<close>
  "get_default p k d = (case p k of None \<Rightarrow> d | Some v \<Rightarrow> v)"

subsection \<open>Strings\<close>

definition py_isspace :: "char \<Rightarrow> bool" where
  \<comment> \<open>the whitespace of \<open>str.strip()\<close> among the code points below 256\<close>
  "py_isspace c =
     (let n = (of_char c :: nat)
      in (9 \<le> n \<and> n \<le> 13) \<or> (28 \<le> n \<and> n \<le> 32) \<or> n = 133 \<or> n = 160)"

definition strip :: "string \<Rightarrow> string" where
  "strip s = rev (dropWhile py_isspace (rev (dropWhile py_isspace s)))"

definition endswith :: "string \<Rightarrow> string \<Rightarrow> bool" where
  "endswith s suffix \<longleftrightarrow>
     length suffix \<le> length s \<and> drop (length s - length suffix) s = suffix"

definition lower_char :: "char \<Rightarrow> char" where
  \<comment> \<open>\<open>str.lower()\<close> on a code point below 256\<close>
  "lower_char c =
     (let n = (of_char c :: nat)
      in if (65 \<le> n \<and> n \<le> 90) \<or> (192 \<le> n \<and> n \<le> 222 \<and> n \<noteq> 215)
         then char_of (n + 32) else c)"

definition lower :: "string \<Rightarrow> string" where
  "lower s = map lower_char s"

fun join :: "string \<Rightarrow> string list \<Rightarrow> string" where
  "join sep [] = []"
| "join sep [x] = x"
| "join sep (x # y # r) = x @ sep @ join sep (y # r)"

subsection \<open>\<open>json.dumps\<close>\<close>

definition hexdigit :: "nat \<Rightarrow> char" where
  "hexdigit d = ''0123456789abcdef'' ! d"

definition json_escape_char :: "char \<Rightarrow> string" where
  \<comment> \<open>\<open>ensure_ascii\<close>: the quote, the backslash and every character outside space..tilde\<close>
  "json_escape_char c =
     (let n = (of_char c :: nat)
      in if n = 34 then [CHR 0x5C, CHR 0x22]
         else if n = 92 then [CHR 0x5C, CHR 0x5C]
         else if n = 10 then [CHR 0x5C, CHR ''n'']
         else if n = 13 then [CHR 0x5C, CHR ''r'']
         else if n = 9 then [CHR 0x5C, CHR ''t'']
         else if n = 8 then [CHR 0x5C, CHR ''b'']
         else if n = 12 then [CHR 0x5C, CHR ''f'']
         else if n < 32 \<or> 126 < n
           then [CHR 0x5C, CHR ''u'', CHR ''0'', CHR ''0'', hexdigit (n div 16), hexdigit (n mod 16)]
         else [c])"

definition json_string :: "string \<Rightarrow> string" where
  "json_string s = CHR 0x22 # concat (map json_escape_char s) @ [CHR 0x22]"

text \<open>
  \<open>json.dumps(v, sort_keys=sk)\<close> with the default separators. The members of a dictionary
  are rendered in their order, or sorted by key.
\<close>

fun json_dumps :: "bool \<Rightarrow> pyval \<Rightarrow> string" where
  "json_dumps sk PNone = ''null''"
| "json_dumps sk (PBool b) = (if b then ''true'' else ''false'')"
| "json_dumps sk (PInt i) = str_int i"
| "json_dumps sk (PStr s) = json_string s"
| "json_dumps sk (PList xs) = ''['' @ join '', '' (map (json_dumps sk) xs) @ '']''"
| "json_dumps sk (PDict kvs) =
     (let members = map (\<lambda>(k, v). (k, json_string k @ '': '' @ json_dumps sk v)) kvs
      in ''{'' @ join '', '' (map snd (if sk then sort_key fst members else members)) @ ''}'')"

definition py_get :: "pyval \<Rightarrow> string \<Rightarrow> pyexn + pyval" where
  \<comment> \<open>\<open>v.get(key)\<close>: only a dictionary has the method\<close>
  "py_get v k =
     (case v of
        PDict kvs \<Rightarrow> Inr (case map_of kvs k of None \<Rightarrow> PNone | Some x \<Rightarrow> x)
      | _ \<Rightarrow> Inl AttributeError)"

section \<open>Normalization of a raw record (scheduler.py)\<close>

text \<open>
  The loop of \<open>_parse_timestamp\<close> over its fallback formats: a ValueError moves on to the
  next format, any other exception leaves the function.
\<close>

fun parse_formats :: "pylib \<Rightarrow> string \<Rightarrow> string list \<Rightarrow> pyexn + datetime option" where
  "parse_formats lib v [] = Inr None"
| "parse_formats lib v (fmt # fmts) =
     (case strptime lib v fmt of
        Inr dt \<Rightarrow> Inr (Some (dt\<lparr>utcoffset := Some 0\<rparr>))
      | Inl e \<Rightarrow> if e = ValueError then parse_formats lib v fmts else Inl e)"

definition formats :: "string list" where
  "formats = [''%Y-%m-%dT%H:%M:%S.%f'', ''%Y-%m-%dT%H:%M:%S'', ''%Y-%m-%d %H:%M:%S'']"

definition parse_timestamp :: "pylib \<Rightarrow> string option \<Rightarrow> pyexn + datetime option" where
  "parse_timestamp lib raw =
     (case raw of
        None \<Rightarrow> Inr None
      | Some r \<Rightarrow>
          if r = [] then Inr None
          else if strip r = [] then Inr None
          else
            (let v = (if endswith (strip r) ''Z'' then butlast (strip r) @ ''+00:00''
                      else strip r)
             in case fromisoformat lib v of
                  Inr dt \<Rightarrow> Inr (Some dt)
                | Inl e \<Rightarrow> if e = ValueError then parse_formats lib v formats else Inl e))"

text \<open>
  \<open>VaultItem.from_api\<close>. \<open>wall_now\<close> is what \<open>datetime.now(timezone.utc)\<close> returns when
  the record is normalized.
\<close>

definition from_api :: "pylib \<Rightarrow> datetime \<Rightarrow> payload \<Rightarrow> pyexn + VaultItem" where
  "from_api lib wall_now p =
     (let cipher_id = py_str lib (get p ''id'');
          nm = py_str lib
                 (py_or (py_or (get p ''name'') (get p ''organizationId'')) (PStr ''Unnamed entry''));
          uid = get p ''userId''
      in case parse_timestamp lib (Some (py_str lib (get_default p ''revisionDate'' (PStr [])))) of
           Inl e \<Rightarrow> Inl e
         | Inr rev_opt \<Rightarrow>
             (case parse_timestamp lib (Some (py_str lib (get p ''passwordRotation''))) of
                Inl e \<Rightarrow> Inl e
              | Inr first_rot \<Rightarrow>
                  (case (if first_rot = None
                         then parse_timestamp lib
                                (Some (py_str lib (get p ''lastPasswordRotation'')))
                         else Inr first_rot) of
                     Inl e \<Rightarrow> Inl e
                   | Inr last_rotated \<Rightarrow>
                       Inr \<lparr>id' = cipher_id,
                            name = nm,
                            user_id = (if truthy uid then Some (py_str lib uid) else None),
                            collection_ids =
                              (case get p ''collectionIds'' of
                                 PList cids \<Rightarrow> map (py_str lib) cids
                               | _ \<Rightarrow>
                                   if truthy (get p ''collectionId'')
                                   then [py_str lib (get p ''collectionId'')] else []),
                            revision_date = (case rev_opt of Some d \<Rightarrow> d | None \<Rightarrow> wall_now),
                            last_rotated_at = last_rotated\<rparr>)))"

section \<open>The world around one evaluation cycle\<close>

text \<open>
  The process environment, the files on disk and the calls made to the notifier. A path in
  \<open>unreadable\<close> makes \<open>read_text\<close> raise; a path in \<open>unwritable\<close> makes \<open>write_text\<close>
  raise and leaves the file as it was. \<open>sent\<close> lists the calls
  \<open>send_rotation_notice(recipient, items, policy_summary)\<close> in the order they were made;
  the notifier and the recipient lookup are collaborators that return.
\<close>

type_synonym environ = "string \<rightharpoonup> string"

type_synonym notice = "string \<times> RotationCandidate list \<times> string"

record world =
  files :: "string \<rightharpoonup> string"
  unreadable :: "string set"
  unwritable :: "string set"
  sent :: "notice list"

definition getenv :: "environ \<Rightarrow> string \<Rightarrow> string \<Rightarrow> string" where
  \<comment> \<open>\<open>os.getenv(key, default)\<close>\<close>
  "getenv env k d = (case env k of None \<Rightarrow> d | Some v \<Rightarrow> v)"

definition path_exists :: "world \<Rightarrow> string \<Rightarrow> bool" where
  "path_exists w p \<longleftrightarrow> files w p \<noteq> None"

definition read_text :: "world \<Rightarrow> string \<Rightarrow> pyexn + string" where
  "read_text w p =
     (case files w p of
        None \<Rightarrow> Inl OSError
      | Some t \<Rightarrow> if p \<in> unreadable w then Inl OSError else Inr t)"

definition write_text :: "world \<Rightarrow> string \<Rightarrow> string \<Rightarrow> pyexn + world" where
  "write_text w p t =
     (if p \<in> unwritable w then Inl OSError else Inr (w\<lparr>files := (files w)(p \<mapsto> t)\<rparr>))"

definition send_rotation_notice ::
  "world \<Rightarrow> string \<Rightarrow> RotationCandidate list \<Rightarrow> string \<Rightarrow> world" where
  "send_rotation_notice w recipient items policy_summary =
     w\<lparr>sent := sent w @ [(recipient, items, policy_summary)]\<rparr>"

text \<open>The scheduler object: its policy and its recipient lookup.\<close>

record scheduler =
  s_policy :: RotationPolicy
  s_user_email_resolver :: "VaultItem \<Rightarrow> string option"

definition build_policy_summary :: "RotationPolicy \<Rightarrow> string" where
  "build_policy_summary policy =
     join '', ''
       ([''frequency '' @ str_int (frequency_days policy) @ ''d'']
        @ (if grace_period_days policy \<noteq> 0
           then [''grace '' @ str_int (grace_period_days policy) @ ''d''] else [])
        @ (case target_collections policy of
             None \<Rightarrow> []
           | Some cs \<Rightarrow> if cs \<noteq> [] then [''collections '' @ str_int (int (length cs))] else [])
        @ (case target_users policy of
             None \<Rightarrow> []
           | Some us \<Rightarrow> if us \<noteq> [] then [''users '' @ str_int (int (length us))] else []))"

section \<open>The digest tracker\<close>

definition digest_payload :: "pylib \<Rightarrow> RotationCandidate list \<Rightarrow> pyval" where
  \<comment> \<open>\<open>[{"id": c.item.id, "due": c.due_at.isoformat()} for c in candidates]\<close>\<close>
  "digest_payload lib candidates =
     PList (map (\<lambda>c. PDict [(''id'', PStr (id' (item c))),
                             (''due'', PStr (isoformat lib (due_at c)))]) candidates)"

definition digest_of :: "pylib \<Rightarrow> RotationCandidate list \<Rightarrow> string" where
  \<comment> \<open>the text that \<open>json.dumps\<close> returns is ASCII, so its UTF-8 encoding is the text\<close>
  "digest_of lib candidates = sha256_hexdigest lib (json_dumps True (digest_payload lib candidates))"

definition state_file_of :: "environ \<Rightarrow> string" where
  "state_file_of env = getenv env ''ROTATION_STATE_FILE'' ''.rotation_state.json''"

definition read_prev :: "pylib \<Rightarrow> world \<Rightarrow> string \<Rightarrow> pyval" where
  \<comment> \<open>the stored hash, \<open>None\<close> when the file is missing or anything raises\<close>
  "read_prev lib w path =
     (if path_exists w path then
        (case read_text w path of
           Inl e \<Rightarrow> PNone
         | Inr t \<Rightarrow>
             (case json_loads lib t of
                Inl e \<Rightarrow> PNone
              | Inr v \<Rightarrow> (case py_get v ''last_hash'' of Inl e \<Rightarrow> PNone | Inr prev \<Rightarrow> prev)))
      else PNone)"

definition digest_has_changed ::
  "pylib \<Rightarrow> environ \<Rightarrow> world \<Rightarrow> RotationCandidate list \<Rightarrow> bool \<times> world" where
  "digest_has_changed lib env w candidates =
     (let state_file = state_file_of env;
          digest = digest_of lib candidates;
          prev = read_prev lib w state_file
      in if PStr digest = prev then (False, w)
         else
           (case write_text w state_file (json_dumps False (PDict [(''last_hash'', PStr digest)])) of
              Inl e \<Rightarrow> (True, w)
            | Inr w' \<Rightarrow> (True, w')))"

section \<open>Dispatch\<close>

definition digest_mode :: "environ \<Rightarrow> bool" where
  "digest_mode env \<longleftrightarrow>
     lower (getenv env ''ROTATION_SNS_DIGEST'' ''1'') \<in> set [''1'', ''true'', ''yes'', ''on'']"

text \<open>
  \<open>grouped.setdefault(email, []).append(candidate)\<close> on a dictionary that keeps the order
  in which its keys were first inserted.
\<close>

fun setdefault_append ::
  "(string \<times> RotationCandidate list) list \<Rightarrow> string \<Rightarrow> RotationCandidate
    \<Rightarrow> (string \<times> RotationCandidate list) list" where
  "setdefault_append [] email c = [(email, [c])]"
| "setdefault_append ((k, cs) # rest) email c =
     (if k = email then (k, cs @ [c]) # rest else (k, cs) # setdefault_append rest email c)"

fun group_loop ::
  "(VaultItem \<Rightarrow> string option) \<Rightarrow> RotationCandidate list
    \<Rightarrow> (string \<times> RotationCandidate list) list \<Rightarrow> (string \<times> RotationCandidate list) list" where
  "group_loop resolver [] grouped = grouped"
| "group_loop resolver (c # cs) grouped =
     (case resolver (item c) of
        None \<Rightarrow> group_loop resolver cs grouped
      | Some email \<Rightarrow>
          if email = [] then group_loop resolver cs grouped
          else group_loop resolver cs (setdefault_append grouped email c))"

fun send_groups ::
  "world \<Rightarrow> (string \<times> RotationCandidate list) list \<Rightarrow> string \<Rightarrow> world" where
  "send_groups w [] policy_summary = w"
| "send_groups w ((recipient, items) # rest) policy_summary =
     send_groups (send_rotation_notice w recipient items policy_summary) rest policy_summary"

definition dispatch_notifications ::
  "pylib \<Rightarrow> environ \<Rightarrow> scheduler \<Rightarrow> world \<Rightarrow> RotationCandidate list \<Rightarrow> world" where
  "dispatch_notifications lib env sch w candidates =
     (if candidates = [] then w
      else if digest_mode env then
        (case digest_has_changed lib env w candidates of
           (False, w') \<Rightarrow> w'
         | (True, w') \<Rightarrow>
             send_rotation_notice w' ''all'' candidates (build_policy_summary (s_policy sch)))
      else
        (let grouped = group_loop (s_user_email_resolver sch) candidates []
         in if grouped = [] then w
            else send_groups w grouped (build_policy_summary (s_policy sch))))"

section \<open>One evaluation cycle\<close>

fun map_exn :: "('a \<Rightarrow> pyexn + 'b) \<Rightarrow> 'a list \<Rightarrow> pyexn + 'b list" where
  "map_exn f [] = Inr []"
| "map_exn f (x # xs) =
     (case f x of
        Inl e \<Rightarrow> Inl e
      | Inr y \<Rightarrow> (case map_exn f xs of Inl e \<Rightarrow> Inl e | Inr ys \<Rightarrow> Inr (y # ys)))"

fun filter_exn :: "('a \<Rightarrow> pyexn + bool) \<Rightarrow> 'a list \<Rightarrow> pyexn + 'a list" where
  "filter_exn f [] = Inr []"
| "filter_exn f (x # xs) =
     (case f x of
        Inl e \<Rightarrow> Inl e
      | Inr b \<Rightarrow>
          (case filter_exn f xs of
             Inl e \<Rightarrow> Inl e
           | Inr ys \<Rightarrow> Inr (if b then x # ys else ys)))"

definition in_str_set :: "pyval \<Rightarrow> string list \<Rightarrow> pyexn + bool" where
  \<comment> \<open>\<open>v in set_of_strings\<close>: a list or a dictionary cannot be hashed\<close>
  "in_str_set v xs =
     (case v of
        PStr s \<Rightarrow> Inr (s \<in> set xs)
      | PList _ \<Rightarrow> Inl TypeError
      | PDict _ \<Rightarrow> Inl TypeError
      | _ \<Rightarrow> Inr False)"

definition iterate :: "pyval \<Rightarrow> pyval list option" where
  \<comment> \<open>the elements of an iterable, \<open>None\<close> for a value that is not one\<close>
  "iterate v =
     (case v of
        PList xs \<Rightarrow> Some xs
      | PStr s \<Rightarrow> Some (map (\<lambda>c. PStr [c]) s)
      | PDict kvs \<Rightarrow> Some (map (\<lambda>(k, _). PStr k) kvs)
      | _ \<Rightarrow> None)"

definition matches_collections :: "pylib \<Rightarrow> string list \<Rightarrow> payload \<Rightarrow> pyexn + bool" where
  "matches_collections lib wanted cipher =
     (let cid = get cipher ''collectionId'' in
      case (if truthy cid then in_str_set cid wanted else Inr False) of
        Inl e \<Rightarrow> Inl e
      | Inr True \<Rightarrow> Inr True
      | Inr False \<Rightarrow>
          (case iterate (get cipher ''collectionIds'') of
             None \<Rightarrow> Inr False
           | Some ms \<Rightarrow> Inr (\<exists>m \<in> set ms. py_str lib m \<in> set wanted)))"

definition filter_collections ::
  "pylib \<Rightarrow> payload list \<Rightarrow> string list \<Rightarrow> pyexn + payload list" where
  "filter_collections lib items wanted =
     filter_exn (matches_collections lib wanted) items"

definition filter_users :: "payload list \<Rightarrow> string list \<Rightarrow> pyexn + payload list" where
  "filter_users items user_ids = filter_exn (\<lambda>c. in_str_set (get c ''userId'') user_ids) items"

definition selected_items ::
  "pylib \<Rightarrow> RotationPolicy \<Rightarrow> payload list \<Rightarrow> pyexn + payload list" where
  \<comment> \<open>the two targeting filters of \<open>run_once\<close>, each applied when its allow-list is truthy\<close>
  "selected_items lib policy ciphers =
     (case (case target_collections policy of
              None \<Rightarrow> Inr ciphers
            | Some cs \<Rightarrow> if cs = [] then Inr ciphers else filter_collections lib ciphers cs) of
        Inl e \<Rightarrow> Inl e
      | Inr selection \<Rightarrow>
          (case target_users policy of
             None \<Rightarrow> Inr selection
           | Some us \<Rightarrow> if us = [] then Inr selection else filter_users selection us))"

text \<open>
  \<open>run_once\<close>: \<open>ciphers\<close> is what \<open>list_ciphers\<close> returned and \<open>now\<close> what the
  \<open>now_factory\<close> returns. The result is the returned candidate list, or the exception that
  left the call, with the world as the call leaves it.
\<close>

definition run_once ::
  "pylib \<Rightarrow> environ \<Rightarrow> scheduler \<Rightarrow> datetime \<Rightarrow> datetime \<Rightarrow> payload list \<Rightarrow> bool \<Rightarrow> world
    \<Rightarrow> (pyexn + RotationCandidate list) \<times> world" where
  "run_once lib env sch wall_now now ciphers send_notifications w =
     (case selected_items lib (s_policy sch) ciphers of
        Inl e \<Rightarrow> (Inl e, w)
      | Inr selection \<Rightarrow>
          (case map_exn (from_api lib wall_now) selection of
             Inl e \<Rightarrow> (Inl e, w)
           | Inr items \<Rightarrow>
               (case select_due_items (s_policy sch) now items of
                  Inl e \<Rightarrow> (Inl e, w)
                | Inr candidates \<Rightarrow>
                    if send_notifications \<and> candidates \<noteq> []
                    then (Inr candidates, dispatch_notifications lib env sch w candidates)
                    else (Inr candidates, w))))"

section \<open>Labels in a notification body (notification.py)\<close>

definition looks_encrypted :: "string option \<Rightarrow> bool" where
  "looks_encrypted s =
     (case s of
        None \<Rightarrow> False
      | Some t \<Rightarrow>
          if t = [] then False
          else (CHR ''|'' \<in> set t \<and> CHR ''.'' \<in> set t) \<or> 60 < length t)"

definition TYPE_LABEL :: "int \<rightharpoonup> string" where
  "TYPE_LABEL = [1 \<mapsto> ''Login'', 2 \<mapsto> ''SecureNote'', 3 \<mapsto> ''Card'', 4 \<mapsto> ''Identity'']"

definition type_label :: "RotationCandidate \<Rightarrow> string" where
  \<comment> \<open>a VaultItem has no attribute \<open>cipher_type\<close>: the \<open>getattr\<close> yields its default, \<open>None\<close>\<close>
  "type_label c =
     (case (None :: int option) of
        None \<Rightarrow> ''Item''
      | Some t \<Rightarrow> (case TYPE_LABEL t of None \<Rightarrow> ''Item'' | Some l \<Rightarrow> l))"

definition label_for :: "RotationCandidate \<Rightarrow> string" where
  "label_for c =
     (let nm = (if name (item c) \<noteq> [] then name (item c) else ''(Unnamed)'')
      in if looks_encrypted (Some nm) then
           (let short_id = (if take 8 (id' (item c)) \<noteq> [] then take 8 (id' (item c))
                            else ''unknown'')
            in ''('' @ type_label c @ '') ID:'' @ short_id)
         else nm)"

section \<open>Vocabulary of the claims\<close>

text \<open>
  The recipient a candidate resolves to: \<open>None\<close> when the lookup yields \<open>None\<close> or the empty
  string, which the dispatch loop skips alike. \<open>groups resolver cs rs\<close> pairs each recipient
  of \<open>rs\<close> with the candidates of \<open>cs\<close> that resolve to it, in their order.
\<close>

definition recipient_of ::
  "(VaultItem \<Rightarrow> string option) \<Rightarrow> RotationCandidate \<Rightarrow> string option" where
  "recipient_of resolver c =
     (case resolver (item c) of None \<Rightarrow> None | Some e \<Rightarrow> if e = [] then None else Some e)"

definition groups ::
  "(VaultItem \<Rightarrow> string option) \<Rightarrow> RotationCandidate list \<Rightarrow> string list
    \<Rightarrow> (string \<times> RotationCandidate list) list" where
  "groups resolver cs rs = map (\<lambda>e. (e, filter (\<lambda>c. recipient_of resolver c = Some e) cs)) rs"

text \<open>
  The contract of the two timestamp parsers of the library: on a text they cannot parse
  they raise ValueError and nothing else.
\<close>

definition parsers_raise_only_ValueError :: "pylib \<Rightarrow> bool" where
  "parsers_raise_only_ValueError lib \<longleftrightarrow>
     (\<forall>s e. fromisoformat lib s = Inl e \<longrightarrow> e = ValueError) \<and>
     (\<forall>s fmt e. strptime lib s fmt = Inl e \<longrightarrow> e = ValueError)"

text \<open>
  The inputs of the scenarios: the policy of 90 days with 5 days of grace, an item last
  revised on 2024-01-01T00:00:00Z and never rotated, and an item whose revision date is the
  last day that a datetime can hold.
\<close>

definition scenario_policy :: RotationPolicy where
  "scenario_policy =
     \<lparr>frequency_days = 90, grace_period_days = 5, target_collections = None,
      target_users = None, send_digest = True\<rparr>"

definition scenario_item :: VaultItem where
  "scenario_item =
     \<lparr>id' = ''c0ffee00-0001'', name = ''mail account'', user_id = Some ''u1'',
      collection_ids = [], revision_date = utc_midnight 2024 1 1, last_rotated_at = None\<rparr>"

definition far_future_item :: VaultItem where
  "far_future_item =
     \<lparr>id' = ''c0ffee00-0002'', name = ''archive'', user_id = Some ''u2'',
      collection_ids = [], revision_date = utc_midnight 9999 12 31, last_rotated_at = None\<rparr>"

text \<open>
  A library for the scenarios: it parses the one timestamp they use and rejects every
  other text, and stands in for the rendering functions. \<open>with_state_decoder\<close> gives it a
  \<open>json.loads\<close> that decodes the state file holding the hash \<open>d\<close>.
\<close>

definition sample_lib :: pylib where
  "sample_lib =
     \<lparr>fromisoformat =
        (\<lambda>s. if s = ''2024-01-01T00:00:00+00:00'' then Inr (utc_midnight 2024 1 1)
              else Inl ValueError),
      strptime = (\<lambda>s fmt. Inl ValueError),
      isoformat = (\<lambda>dt. str_int (ticks dt)),
      sha256_hexdigest = (\<lambda>t. t),
      json_loads = (\<lambda>t. Inl ValueError),
      str_compound = (\<lambda>v. ''[...]'')\<rparr>"

definition with_state_decoder :: "pylib \<Rightarrow> string \<Rightarrow> pylib" where
  "with_state_decoder lib d =
     lib\<lparr>json_loads :=
       (\<lambda>t. if t = json_dumps False (PDict [(''last_hash'', PStr d)])
            then Inr (PDict [(''last_hash'', PStr d)]) else Inl ValueError)\<rparr>"

definition scenario_payload :: payload where
  "scenario_payload =
     [''id'' \<mapsto> PStr ''c0ffee00-0001'', ''name'' \<mapsto> PStr ''mail account'',
      ''userId'' \<mapsto> PStr ''u1'', ''revisionDate'' \<mapsto> PStr ''2024-01-01T00:00:00Z'']"

definition scenario_candidate :: RotationCandidate where
  "scenario_candidate = \<lparr>item = scenario_item, due_at = utc_midnight 2024 3 31\<rparr>"

definition fresh_world :: world where
  "fresh_world = \<lparr>files = Map.empty, unreadable = {}, unwritable = {}, sent = []\<rparr>"

definition sample_scheduler :: scheduler where
  "sample_scheduler =
     \<lparr>s_policy = scenario_policy,
      s_user_email_resolver = (\<lambda>it. map_option (\<lambda>u. u @ ''@example.org'') (user_id it))\<rparr>"

text \<open>
  Worlds for the scenarios: one whose state file holds the hash \<open>d\<close>, one whose state file
  cannot be written, and one whose state file holds text that is not JSON.
\<close>

definition state_text :: "string \<Rightarrow> string" where
  "state_text d = json_dumps False (PDict [(''last_hash'', PStr d)])"

definition stored_world :: "string \<Rightarrow> world" where
  "stored_world d = fresh_world\<lparr>files := [''.rotation_state.json'' \<mapsto> state_text d]\<rparr>"



text \<open>
  Further inputs: a second due item owned by another user, an item without an owner, an
  item whose name has the shape of ciphertext, an item with an empty name, a scheduler
  whose policy has \<open>send_digest\<close> off, an environment that turns digest mode off, and a raw
  record with malformed timestamps.
\<close>

definition second_item :: VaultItem where
  "second_item =
     \<lparr>id' = ''c0ffee00-0003'', name = ''vpn gateway'', user_id = Some ''u2'',
      collection_ids = [], revision_date = utc_midnight 2024 1 1, last_rotated_at = None\<rparr>"

definition second_candidate :: RotationCandidate where
  "second_candidate = \<lparr>item = second_item, due_at = utc_midnight 2024 3 31\<rparr>"

definition ownerless_candidate :: RotationCandidate where
  "ownerless_candidate =
     \<lparr>item = second_item\<lparr>id' := ''c0ffee00-0004'', user_id := None\<rparr>,
      due_at = utc_midnight 2024 3 31\<rparr>"

definition ciphertext_candidate :: RotationCandidate where
  "ciphertext_candidate =
     \<lparr>item = scenario_item\<lparr>name := ''2.ab3F==|c9Zp==|xyQ==''\<rparr>, due_at = utc_midnight 2024 3 31\<rparr>"

definition unnamed_candidate :: RotationCandidate where
  "unnamed_candidate = \<lparr>item = scenario_item\<lparr>name := []\<rparr>, due_at = utc_midnight 2024 3 31\<rparr>"

definition no_digest_scheduler :: scheduler where
  "no_digest_scheduler = sample_scheduler\<lparr>s_policy := scenario_policy\<lparr>send_digest := False\<rparr>\<rparr>"

definition per_recipient_env :: environ where
  "per_recipient_env = [''ROTATION_SNS_DIGEST'' \<mapsto> ''0'']"

definition malformed_payload :: payload where
  "malformed_payload =
     [''id'' \<mapsto> PStr ''c0ffee00-0005'', ''name'' \<mapsto> PStr ''legacy'',
      ''revisionDate'' \<mapsto> PStr ''yesterday'', ''passwordRotation'' \<mapsto> PStr ''31/12/2023'']"

lemmas scenario_defs =
  scenario_policy_def scenario_item_def far_future_item_def utc_midnight_def ymd2ord_def
  days_before_year_def days_before_month_def is_leap_def us_per_day_def MAXORDINAL_def

section \<open>Properties of the selector\<close>

lemma timedelta_in_range_days:
  "timedelta_in_range (d * us_per_day) \<longleftrightarrow> \<bar>d\<bar> \<le> 999999999"
  by (auto simp: timedelta_in_range_def us_per_day_def)

lemma datetime_ge_instant:
  "(utcoffset a = None) = (utcoffset b = None) \<Longrightarrow>
     datetime_ge a b = Inr (instant b \<le> instant a)"
  by (cases "utcoffset a"; cases "utcoffset b") (auto simp: datetime_ge_def instant_def)

lemma select_loop_ok:
  "list_all (item_arith_ok policy now) items \<Longrightarrow>
   select_loop now (frequency_days policy * us_per_day)
       ((frequency_days policy - grace_period_days policy) * us_per_day) items acc
     = Inr (acc @ map (candidate_for policy) (filter (is_due policy now) items))"
proof (induction items arbitrary: acc)
  case Nil
  show ?case by simp
next
  case (Cons it items)
  let ?ref = "effective_rotation_source it"
  let ?f = "frequency_days policy * us_per_day"
  let ?r = "(frequency_days policy - grace_period_days policy) * us_per_day"
  from Cons.prems have ok: "item_arith_ok policy now it"
    and rest: "list_all (item_arith_ok policy now) items"
    by simp_all
  have add_f: "datetime_add ?ref ?f = Inr (?ref\<lparr>ticks := ticks ?ref + ?f\<rparr>)"
    using ok by (simp add: item_arith_ok_def datetime_add_def)
  have add_r: "datetime_add ?ref ?r = Inr (?ref\<lparr>ticks := ticks ?ref + ?r\<rparr>)"
    using ok by (simp add: item_arith_ok_def datetime_add_def)
  have ge: "datetime_ge now (?ref\<lparr>ticks := ticks ?ref + ?r\<rparr>) = Inr (is_due policy now it)"
  proof -
    have "(utcoffset now = None) = (utcoffset (?ref\<lparr>ticks := ticks ?ref + ?r\<rparr>) = None)"
      using ok by (simp add: item_arith_ok_def)
    then have "datetime_ge now (?ref\<lparr>ticks := ticks ?ref + ?r\<rparr>)
        = Inr (instant (?ref\<lparr>ticks := ticks ?ref + ?r\<rparr>) \<le> instant now)"
      by (rule datetime_ge_instant)
    moreover have "instant (?ref\<lparr>ticks := ticks ?ref + ?r\<rparr>) = instant ?ref + ?r"
      by (simp add: instant_def)
    ultimately show ?thesis by (simp add: is_due_def)
  qed
  show ?case
  proof (cases "is_due policy now it")
    case True
    then show ?thesis
      using add_f add_r ge Cons.IH [OF rest] by (simp add: candidate_for_def Let_def)
  next
    case False
    then show ?thesis
      using add_f add_r ge Cons.IH [OF rest] by (simp add: Let_def)
  qed
qed

lemma select_due_items_policy:
  "policy_arith_ok policy \<Longrightarrow>
   select_due_items policy now items =
     select_loop now (frequency_days policy * us_per_day)
       ((frequency_days policy - grace_period_days policy) * us_per_day) items []"
proof -
  assume ok: "policy_arith_ok policy"
  have "timedelta_in_range ((frequency_days policy - grace_period_days policy) * us_per_day)"
    using ok by (simp only: timedelta_in_range_days policy_arith_ok_def)
  then have "timedelta_sub (frequency_days policy * us_per_day)
      (grace_period_days policy * us_per_day)
    = Inr ((frequency_days policy - grace_period_days policy) * us_per_day)"
    by (simp add: timedelta_sub_def left_diff_distrib)
  then show ?thesis
    using ok
    by (simp add: select_due_items_def frequency_delta_def grace_delta_def timedelta_days_def
        policy_arith_ok_def)
qed

text \<open>
  Claim C2, as amended. Whenever the date arithmetic of the call raises nothing (the
  policy's day counts and their difference fit a timedelta, every item's deadline and
  reminder point lie inside the range of datetime, and every item's timestamp is
  timezone-aware exactly when \<open>now\<close> is), the selector returns, in input order, one
  candidate for exactly the items with
  \<open>now \<ge> effective_rotation_source + (frequency_days - grace_period_days) days\<close>, and the
  candidate's \<open>due_at\<close> is \<open>effective_rotation_source + frequency_days days\<close>, the hard
  deadline and not the reminder point.
\<close>

theorem select_due_items_due_exactly:
  assumes "policy_arith_ok policy"
    and "list_all (item_arith_ok policy now) items"
  shows "select_due_items policy now items
    = Inr (map (candidate_for policy) (filter (is_due policy now) items))"
  using assms select_loop_ok [of policy now items "[]"]
  by (simp add: select_due_items_policy)

theorem select_due_items_due_exactly_witness:
  "policy_arith_ok scenario_policy \<and>
   list_all (item_arith_ok scenario_policy (utc_midnight 2024 3 26)) [scenario_item] \<and>
   select_due_items scenario_policy (utc_midnight 2024 3 26) [scenario_item]
     = Inr [\<lparr>item = scenario_item, due_at = utc_midnight 2024 3 31\<rparr>] \<and>
   select_due_items scenario_policy (utc_midnight 2024 3 20) [scenario_item] = Inr []"
proof -
  have p: "policy_arith_ok scenario_policy"
    by (simp add: policy_arith_ok_def scenario_defs)
  have a: "list_all (item_arith_ok scenario_policy (utc_midnight 2024 3 26)) [scenario_item]"
    by (simp add: item_arith_ok_def effective_rotation_source_def datetime_in_range_def
        scenario_defs)
  have b: "list_all (item_arith_ok scenario_policy (utc_midnight 2024 3 20)) [scenario_item]"
    by (simp add: item_arith_ok_def effective_rotation_source_def datetime_in_range_def
        scenario_defs)
  have "select_due_items scenario_policy (utc_midnight 2024 3 26) [scenario_item]
      = Inr [\<lparr>item = scenario_item, due_at = utc_midnight 2024 3 31\<rparr>]"
    using select_due_items_due_exactly [OF p a]
    by (simp add: is_due_def candidate_for_def instant_def effective_rotation_source_def
        scenario_defs)
  moreover have "select_due_items scenario_policy (utc_midnight 2024 3 20) [scenario_item] = Inr []"
    using select_due_items_due_exactly [OF p b]
    by (simp add: is_due_def instant_def effective_rotation_source_def scenario_defs)
  ultimately show ?thesis using p a by simp
qed

text \<open>
  Claim C2 as the specification states it, for every item, fails where the date
  arithmetic raises: with an item revised on 9999-12-31 in the list, computing that item's
  deadline raises OverflowError, the call returns no candidates, and the item of
  2024-01-01, which is due on 2024-03-26 under the 90/5 policy, is not emitted.
\<close>

theorem select_due_items_overflow_counterexample:
  "is_due scenario_policy (utc_midnight 2024 3 26) scenario_item \<and>
   select_due_items scenario_policy (utc_midnight 2024 3 26) [far_future_item, scenario_item]
     = Inl OverflowError"
  by (simp add: is_due_def instant_def effective_rotation_source_def select_due_items_def
      frequency_delta_def grace_delta_def timedelta_days_def timedelta_sub_def
      timedelta_in_range_def datetime_add_def datetime_in_range_def scenario_defs)

section \<open>Evaluating the scenarios\<close>

lemma strip_scenario_timestamp: "strip ''2024-01-01T00:00:00Z'' = ''2024-01-01T00:00:00Z''"
  by (simp add: strip_def py_isspace_def)

lemma strip_None_text: "strip ''None'' = ''None''"
  by (simp add: strip_def py_isspace_def)

lemma parse_scenario_timestamp:
  "parse_timestamp sample_lib (Some ''2024-01-01T00:00:00Z'') = Inr (Some (utc_midnight 2024 1 1))"
  by (simp add: parse_timestamp_def strip_scenario_timestamp endswith_def sample_lib_def)

lemma parse_None_text: "parse_timestamp sample_lib (Some ''None'') = Inr None"
  by (simp add: parse_timestamp_def strip_None_text endswith_def sample_lib_def formats_def)

lemma from_api_scenario: "from_api sample_lib wall_now scenario_payload = Inr scenario_item"
  by (simp add: from_api_def scenario_payload_def get_def get_default_def py_or_def
      parse_scenario_timestamp parse_None_text scenario_item_def)

lemma select_scenario_early:
  "select_due_items scenario_policy (utc_midnight 2024 3 20) [scenario_item] = Inr []"
  by (simp add: select_due_items_def frequency_delta_def grace_delta_def timedelta_days_def
      timedelta_sub_def timedelta_in_range_def datetime_add_def datetime_in_range_def
      datetime_ge_def effective_rotation_source_def scenario_defs)


lemma sample_policy: "s_policy sample_scheduler = scenario_policy"
  by (simp add: sample_scheduler_def)

lemma selected_items_scenario: "selected_items lib scenario_policy ciphers = Inr ciphers"
  by (simp add: selected_items_def scenario_policy_def)

lemma run_once_scenario:
  "run_once lib env sample_scheduler wall_now now [scenario_payload] send_notifications w =
     (case map_exn (from_api lib wall_now) [scenario_payload] of
        Inl e \<Rightarrow> (Inl e, w)
      | Inr items \<Rightarrow>
          (case select_due_items scenario_policy now items of
             Inl e \<Rightarrow> (Inl e, w)
           | Inr candidates \<Rightarrow>
               if send_notifications \<and> candidates \<noteq> []
               then (Inr candidates, dispatch_notifications lib env sample_scheduler w candidates)
               else (Inr candidates, w)))"
  unfolding run_once_def sample_policy selected_items_scenario by simp

section \<open>Properties of dispatch and of the digest tracker\<close>




lemma dispatch_digest_sent:
  "digest_mode env \<Longrightarrow> cs \<noteq> [] \<Longrightarrow>
   sent (dispatch_notifications lib env sch w cs) =
     (if read_prev lib w (state_file_of env) = PStr (digest_of lib cs) then sent w
      else sent w @ [(''all'', cs, build_policy_summary (s_policy sch))])"
  by (auto simp: dispatch_notifications_def digest_has_changed_def Let_def write_text_def
      send_rotation_notice_def split: sum.splits)


lemma digest_mode_default: "digest_mode Map.empty"
  by (simp add: digest_mode_def getenv_def lower_def lower_char_def)

lemma state_file_default: "state_file_of Map.empty = ''.rotation_state.json''"
  by (simp add: state_file_of_def getenv_def)

text \<open>
  Claim C9. In every mode and for every policy, an evaluation cycle whose candidate list
  comes out empty makes no call to the notifier: the cycle leaves the world, and with it
  the list of notifier calls, as it found it. A dispatch on an empty list does the same.
\<close>

theorem run_once_empty_no_notify:
  assumes "fst (run_once lib env sch wall_now now ciphers send_notifications w) = Inr []"
  shows "snd (run_once lib env sch wall_now now ciphers send_notifications w) = w \<and>
         dispatch_notifications lib env sch w [] = w"
  using assms
  by (auto simp: run_once_def dispatch_notifications_def split: sum.splits if_splits)

theorem run_once_empty_no_notify_witness:
  "fst (run_once sample_lib Map.empty sample_scheduler (utc_midnight 2024 3 20)
          (utc_midnight 2024 3 20) [scenario_payload] True fresh_world) = Inr [] \<and>
   sent (snd (run_once sample_lib Map.empty sample_scheduler (utc_midnight 2024 3 20)
          (utc_midnight 2024 3 20) [scenario_payload] True fresh_world)) = []"
proof -
  have e: "fst (run_once sample_lib Map.empty sample_scheduler (utc_midnight 2024 3 20)
          (utc_midnight 2024 3 20) [scenario_payload] True fresh_world) = Inr []"
    by (simp add: run_once_scenario from_api_scenario select_scenario_early)
  from run_once_empty_no_notify [OF e] show ?thesis
    using e by (simp add: fresh_world_def)
qed

text \<open>
  Claim C10. When the fingerprint of the candidates equals the stored one,
  \<open>_digest_has_changed\<close> returns false and writes nothing: the world, and so the state file
  byte for byte, is as before. Conversely every call that returns false has left the world
  as it was.
\<close>

theorem digest_unchanged_state_untouched:
  "(read_prev lib w (state_file_of env) = PStr (digest_of lib cs)
      \<longrightarrow> digest_has_changed lib env w cs = (False, w)) \<and>
   (\<not> fst (digest_has_changed lib env w cs)
      \<longrightarrow> snd (digest_has_changed lib env w cs) = w)"
  by (auto simp: digest_has_changed_def Let_def split: sum.splits)

lemma build_policy_summary_scenario:
  "build_policy_summary scenario_policy = ''frequency 90d, grace 5d''"
  by (simp add: build_policy_summary_def scenario_policy_def str_int_def digits_of.simps)

lemma digest_of_with_state_decoder:
  "digest_of (with_state_decoder lib d) cs = digest_of lib cs"
  by (simp add: digest_of_def digest_payload_def with_state_decoder_def)

lemma read_prev_stored:
  "files w p = Some (state_text d) \<Longrightarrow> p \<notin> unreadable w \<Longrightarrow>
   read_prev (with_state_decoder lib d) w p = PStr d"
  by (simp add: read_prev_def path_exists_def read_text_def with_state_decoder_def state_text_def
      py_get_def)


theorem digest_unchanged_state_untouched_witness:
  "read_prev (with_state_decoder sample_lib (digest_of sample_lib [scenario_candidate]))
       (stored_world (digest_of sample_lib [scenario_candidate])) (state_file_of Map.empty)
     = PStr (digest_of (with_state_decoder sample_lib (digest_of sample_lib [scenario_candidate]))
         [scenario_candidate]) \<and>
   digest_has_changed (with_state_decoder sample_lib (digest_of sample_lib [scenario_candidate]))
       Map.empty (stored_world (digest_of sample_lib [scenario_candidate])) [scenario_candidate]
     = (False, stored_world (digest_of sample_lib [scenario_candidate]))"
proof -
  let ?d = "digest_of sample_lib [scenario_candidate]"
  have prev: "read_prev (with_state_decoder sample_lib ?d) (stored_world ?d)
      (state_file_of Map.empty)
    = PStr (digest_of (with_state_decoder sample_lib ?d) [scenario_candidate])"
    by (simp add: state_file_default read_prev_stored digest_of_with_state_decoder
        stored_world_def fresh_world_def)
  with digest_unchanged_state_untouched
    [of "with_state_decoder sample_lib ?d" "stored_world ?d" Map.empty "[scenario_candidate]"]
  show ?thesis by simp
qed



lemma read_prev_after_write:
  assumes "p \<notin> unreadable w"
    and "json_loads lib t = Inr v" and "py_get v ''last_hash'' = Inr x"
  shows "read_prev lib (w\<lparr>files := (files w)(p \<mapsto> t), sent := ns\<rparr>) p = x"
  using assms by (simp add: read_prev_def path_exists_def read_text_def)




section \<open>Properties of per-recipient dispatch\<close>

lemma summary_send_digest:
  "build_policy_summary (policy\<lparr>send_digest := b\<rparr>) = build_policy_summary policy"
  by (simp add: build_policy_summary_def)

lemma dispatch_ignores_send_digest:
  "dispatch_notifications lib env (sch\<lparr>s_policy := (s_policy sch)\<lparr>send_digest := b\<rparr>\<rparr>) w cs
     = dispatch_notifications lib env sch w cs"
  by (auto simp: dispatch_notifications_def summary_send_digest Let_def split: prod.splits bool.splits)

lemma sent_send_groups:
  "sent (send_groups w grouped s) = sent w @ map (\<lambda>(e, g). (e, g, s)) grouped"
  by (induction w grouped s rule: send_groups.induct) (simp_all add: send_rotation_notice_def)

lemma dispatch_per_recipient_sent:
  "\<not> digest_mode env \<Longrightarrow>
   sent (dispatch_notifications lib env sch w cs)
     = sent w @ map (\<lambda>(e, g). (e, g, build_policy_summary (s_policy sch)))
         (group_loop (s_user_email_resolver sch) cs [])"
  by (simp add: dispatch_notifications_def Let_def sent_send_groups)

lemma groups_snoc_other:
  "recipient_of r c \<notin> Some ` set rs \<Longrightarrow> groups r (seen @ [c]) rs = groups r seen rs"
  by (auto simp: groups_def)

lemma setdefault_append_groups:
  assumes "recipient_of r c = Some e" "distinct rs"
    and "e \<notin> set rs \<Longrightarrow> filter (\<lambda>c. recipient_of r c = Some e) seen = []"
  shows "setdefault_append (groups r seen rs) e c
     = groups r (seen @ [c]) (if e \<in> set rs then rs else rs @ [e])"
  using assms
proof (induction rs)
  case Nil
  then show ?case by (simp add: groups_def)
next
  case (Cons k rest)
  show ?case
  proof (cases "k = e")
    case True
    with Cons.prems have "e \<notin> set rest" by simp
    then have "recipient_of r c \<notin> Some ` set rest"
      using Cons.prems by auto
    then have "groups r (seen @ [c]) rest = groups r seen rest"
      by (rule groups_snoc_other)
    then show ?thesis
      using True Cons.prems by (simp add: groups_def)
  next
    case False
    have "setdefault_append (groups r seen rest) e c
       = groups r (seen @ [c]) (if e \<in> set rest then rest else rest @ [e])"
      using Cons.prems False by (intro Cons.IH) auto
    then show ?thesis
      using False Cons.prems by (auto simp: groups_def)
  qed
qed

lemma group_loop_groups:
  assumes "distinct rs"
    and "set rs = {e. \<exists>c \<in> set seen. recipient_of r c = Some e}"
  shows "\<exists>rs'. distinct rs' \<and>
           set rs' = {e. \<exists>c \<in> set (seen @ cs). recipient_of r c = Some e} \<and>
           group_loop r cs (groups r seen rs) = groups r (seen @ cs) rs'"
  using assms
proof (induction cs arbitrary: seen rs)
  case Nil
  then show ?case by auto
next
  case (Cons c cs)
  show ?case
  proof (cases "recipient_of r c")
    case None
    then have skip: "group_loop r (c # cs) (groups r seen rs) = group_loop r cs (groups r seen rs)"
      by (auto simp: recipient_of_def split: option.splits if_splits)
    have g: "groups r (seen @ [c]) rs = groups r seen rs"
      using None by (intro groups_snoc_other) auto
    have s: "set rs = {e. \<exists>c \<in> set (seen @ [c]). recipient_of r c = Some e}"
      using Cons.prems None by auto
    from Cons.IH [OF Cons.prems(1) s] show ?thesis
      using skip g by simp
  next
    case (Some e)
    then have step: "group_loop r (c # cs) (groups r seen rs)
        = group_loop r cs (setdefault_append (groups r seen rs) e c)"
      by (auto simp: recipient_of_def split: option.splits if_splits)
    let ?rs = "if e \<in> set rs then rs else rs @ [e]"
    have empty: "e \<notin> set rs \<Longrightarrow> filter (\<lambda>c. recipient_of r c = Some e) seen = []"
      using Cons.prems(2) by (auto simp: filter_empty_conv)
    have g: "setdefault_append (groups r seen rs) e c = groups r (seen @ [c]) ?rs"
      using Some Cons.prems(1) empty by (rule setdefault_append_groups)
    have d: "distinct ?rs" using Cons.prems(1) by simp
    have s: "set ?rs = {e. \<exists>c \<in> set (seen @ [c]). recipient_of r c = Some e}"
      using Cons.prems(2) Some by auto
    from Cons.IH [OF d s] show ?thesis
      using step g by simp
  qed
qed

text \<open>
  Claim C5. In per-recipient mode the notifier is called once for each distinct recipient
  that some candidate resolves to, and for nobody else: a candidate whose lookup yields
  nothing (\<open>None\<close> or the empty string) belongs to no call. The call for a recipient
  carries exactly the candidates that resolve to that recipient, in their order.
\<close>

theorem per_recipient_one_notice_each:
  assumes "\<not> digest_mode env"
  shows "\<exists>recipients.
           distinct recipients \<and>
           set recipients
             = {e. \<exists>c \<in> set cs. recipient_of (s_user_email_resolver sch) c = Some e} \<and>
           sent (dispatch_notifications lib env sch w cs)
             = sent w @ map (\<lambda>e. (e, filter (\<lambda>c. recipient_of (s_user_email_resolver sch) c = Some e) cs,
                                  build_policy_summary (s_policy sch))) recipients"
proof -
  let ?r = "s_user_email_resolver sch"
  have "\<exists>rs'. distinct rs' \<and>
           set rs' = {e. \<exists>c \<in> set ([] @ cs). recipient_of ?r c = Some e} \<and>
           group_loop ?r cs (groups ?r [] []) = groups ?r ([] @ cs) rs'"
    by (rule group_loop_groups) simp_all
  then obtain rs where rs: "distinct rs"
      "set rs = {e. \<exists>c \<in> set cs. recipient_of ?r c = Some e}"
      "group_loop ?r cs [] = groups ?r cs rs"
    by (auto simp: groups_def)
  have "sent (dispatch_notifications lib env sch w cs)
      = sent w @ map (\<lambda>(e, g). (e, g, build_policy_summary (s_policy sch))) (groups ?r cs rs)"
    using assms rs(3) by (simp add: dispatch_per_recipient_sent)
  also have "map (\<lambda>(e, g). (e, g, build_policy_summary (s_policy sch))) (groups ?r cs rs)
      = map (\<lambda>e. (e, filter (\<lambda>c. recipient_of ?r c = Some e) cs,
                    build_policy_summary (s_policy sch))) rs"
    by (simp add: groups_def)
  finally show ?thesis using rs(1,2) by blast
qed

lemma digest_mode_per_recipient_env: "\<not> digest_mode per_recipient_env"
  by (simp add: digest_mode_def getenv_def per_recipient_env_def lower_def lower_char_def)

lemma dispatch_three_candidates:
  "sent (dispatch_notifications lib per_recipient_env sample_scheduler fresh_world
           [scenario_candidate, ownerless_candidate, second_candidate])
     = [(''u1@example.org'', [scenario_candidate], ''frequency 90d, grace 5d''),
        (''u2@example.org'', [second_candidate], ''frequency 90d, grace 5d'')]"
  by (simp add: dispatch_per_recipient_sent digest_mode_per_recipient_env sample_policy
      build_policy_summary_scenario sample_scheduler_def fresh_world_def scenario_candidate_def
      second_candidate_def ownerless_candidate_def scenario_item_def second_item_def)

theorem per_recipient_one_notice_each_witness:
  "\<not> digest_mode per_recipient_env \<and>
   (\<exists>recipients. distinct recipients \<and>
      sent (dispatch_notifications sample_lib per_recipient_env sample_scheduler fresh_world
              [scenario_candidate, ownerless_candidate, second_candidate])
        = map (\<lambda>e. (e, filter (\<lambda>c. recipient_of (s_user_email_resolver sample_scheduler) c = Some e)
                          [scenario_candidate, ownerless_candidate, second_candidate],
                      build_policy_summary (s_policy sample_scheduler))) recipients) \<and>
   sent (dispatch_notifications sample_lib per_recipient_env sample_scheduler fresh_world
           [scenario_candidate, ownerless_candidate, second_candidate])
     = [(''u1@example.org'', [scenario_candidate], ''frequency 90d, grace 5d''),
        (''u2@example.org'', [second_candidate], ''frequency 90d, grace 5d'')]"
proof -
  from per_recipient_one_notice_each [OF digest_mode_per_recipient_env,
      of "[scenario_candidate, ownerless_candidate, second_candidate]" sample_scheduler
        sample_lib fresh_world]
  obtain recipients where "distinct recipients"
    and "sent (dispatch_notifications sample_lib per_recipient_env sample_scheduler fresh_world
              [scenario_candidate, ownerless_candidate, second_candidate])
        = sent fresh_world
          @ map (\<lambda>e. (e, filter (\<lambda>c. recipient_of (s_user_email_resolver sample_scheduler) c = Some e)
                          [scenario_candidate, ownerless_candidate, second_candidate],
                      build_policy_summary (s_policy sample_scheduler))) recipients"
    by blast
  then have "\<exists>recipients. distinct recipients \<and>
      sent (dispatch_notifications sample_lib per_recipient_env sample_scheduler fresh_world
              [scenario_candidate, ownerless_candidate, second_candidate])
        = map (\<lambda>e. (e, filter (\<lambda>c. recipient_of (s_user_email_resolver sample_scheduler) c = Some e)
                          [scenario_candidate, ownerless_candidate, second_candidate],
                      build_policy_summary (s_policy sample_scheduler))) recipients"
    by (auto simp: fresh_world_def)
  then show ?thesis
    using digest_mode_per_recipient_env dispatch_three_candidates by blast
qed

section \<open>The switch between the two modes\<close>

lemma read_prev_fresh_world: "read_prev lib fresh_world p = PNone"
  by (simp add: read_prev_def path_exists_def fresh_world_def)

lemma dispatch_digest_fresh_world:
  "sent (dispatch_notifications lib Map.empty sch fresh_world
           [scenario_candidate, second_candidate])
     = [(''all'', [scenario_candidate, second_candidate], build_policy_summary (s_policy sch))]"
  by (simp add: dispatch_digest_sent digest_mode_default read_prev_fresh_world)
     (simp add: fresh_world_def)

lemma dispatch_two_candidates:
  "sent (dispatch_notifications lib per_recipient_env sample_scheduler fresh_world
           [scenario_candidate, second_candidate])
     = [(''u1@example.org'', [scenario_candidate], ''frequency 90d, grace 5d''),
        (''u2@example.org'', [second_candidate], ''frequency 90d, grace 5d'')]"
  by (simp add: dispatch_per_recipient_sent digest_mode_per_recipient_env sample_policy
      build_policy_summary_scenario sample_scheduler_def fresh_world_def scenario_candidate_def
      second_candidate_def scenario_item_def second_item_def)

lemma no_digest_policy:
  "s_policy no_digest_scheduler = scenario_policy\<lparr>send_digest := False\<rparr>"
  by (simp add: no_digest_scheduler_def)

text \<open>
  Claim C4, as amended. The mode of a dispatch is decided by the environment and not by
  the policy: dispatch runs in digest mode exactly when the variable
  \<open>ROTATION_SNS_DIGEST\<close> (default \<open>1\<close>), in lower case, is one of \<open>1\<close>, \<open>true\<close>, \<open>yes\<close>,
  \<open>on\<close>. In digest mode a non-empty candidate list leads to at most the one notice to
  "all"; otherwise the notices go to the recipient groups. Setting the policy's
  \<open>send_digest\<close> to any value changes nothing in what a dispatch does.
\<close>

theorem dispatch_mode_from_environment:
  "dispatch_notifications lib env (sch\<lparr>s_policy := (s_policy sch)\<lparr>send_digest := b\<rparr>\<rparr>) w cs
     = dispatch_notifications lib env sch w cs \<and>
   digest_mode env
     = (lower (getenv env ''ROTATION_SNS_DIGEST'' ''1'') \<in> {''1'', ''true'', ''yes'', ''on''}) \<and>
   (digest_mode env \<and> cs \<noteq> [] \<longrightarrow>
      sent (dispatch_notifications lib env sch w cs)
        = (if read_prev lib w (state_file_of env) = PStr (digest_of lib cs) then sent w
           else sent w @ [(''all'', cs, build_policy_summary (s_policy sch))])) \<and>
   (\<not> digest_mode env \<longrightarrow>
      sent (dispatch_notifications lib env sch w cs)
        = sent w @ map (\<lambda>(e, g). (e, g, build_policy_summary (s_policy sch)))
            (group_loop (s_user_email_resolver sch) cs []))"
proof (intro conjI impI)
  show "dispatch_notifications lib env (sch\<lparr>s_policy := (s_policy sch)\<lparr>send_digest := b\<rparr>\<rparr>) w cs
      = dispatch_notifications lib env sch w cs"
    by (rule dispatch_ignores_send_digest)
  show "digest_mode env
      = (lower (getenv env ''ROTATION_SNS_DIGEST'' ''1'') \<in> {''1'', ''true'', ''yes'', ''on''})"
    by (simp add: digest_mode_def)
next
  assume "digest_mode env \<and> cs \<noteq> []"
  then show "sent (dispatch_notifications lib env sch w cs)
      = (if read_prev lib w (state_file_of env) = PStr (digest_of lib cs) then sent w
         else sent w @ [(''all'', cs, build_policy_summary (s_policy sch))])"
    by (simp add: dispatch_digest_sent)
next
  assume "\<not> digest_mode env"
  then show "sent (dispatch_notifications lib env sch w cs)
      = sent w @ map (\<lambda>(e, g). (e, g, build_policy_summary (s_policy sch)))
          (group_loop (s_user_email_resolver sch) cs [])"
    by (rule dispatch_per_recipient_sent)
qed

theorem dispatch_mode_from_environment_witness:
  "digest_mode Map.empty \<and> \<not> digest_mode per_recipient_env \<and>
   sent (dispatch_notifications sample_lib Map.empty
           (sample_scheduler\<lparr>s_policy := (s_policy sample_scheduler)\<lparr>send_digest := False\<rparr>\<rparr>)
           fresh_world [scenario_candidate, second_candidate])
     = [(''all'', [scenario_candidate, second_candidate], ''frequency 90d, grace 5d'')] \<and>
   sent (dispatch_notifications sample_lib per_recipient_env
           (sample_scheduler\<lparr>s_policy := (s_policy sample_scheduler)\<lparr>send_digest := True\<rparr>\<rparr>)
           fresh_world [scenario_candidate, second_candidate])
     = [(''u1@example.org'', [scenario_candidate], ''frequency 90d, grace 5d''),
        (''u2@example.org'', [second_candidate], ''frequency 90d, grace 5d'')]"
proof -
  have a: "dispatch_notifications sample_lib Map.empty
      (sample_scheduler\<lparr>s_policy := (s_policy sample_scheduler)\<lparr>send_digest := False\<rparr>\<rparr>)
      fresh_world [scenario_candidate, second_candidate]
    = dispatch_notifications sample_lib Map.empty sample_scheduler fresh_world
        [scenario_candidate, second_candidate]"
    using dispatch_mode_from_environment
      [where lib = sample_lib and env = Map.empty and sch = sample_scheduler and b = False
         and w = fresh_world and cs = "[scenario_candidate, second_candidate]"]
    by blast
  have b: "dispatch_notifications sample_lib per_recipient_env
      (sample_scheduler\<lparr>s_policy := (s_policy sample_scheduler)\<lparr>send_digest := True\<rparr>\<rparr>)
      fresh_world [scenario_candidate, second_candidate]
    = dispatch_notifications sample_lib per_recipient_env sample_scheduler fresh_world
        [scenario_candidate, second_candidate]"
    using dispatch_mode_from_environment
      [where lib = sample_lib and env = per_recipient_env and sch = sample_scheduler
         and b = True and w = fresh_world and cs = "[scenario_candidate, second_candidate]"]
    by blast
  show ?thesis
    unfolding a b
    by (simp add: digest_mode_default digest_mode_per_recipient_env dispatch_digest_fresh_world
        dispatch_two_candidates sample_policy build_policy_summary_scenario)
qed

text \<open>
  Claim C4 as the specification states it fails in both directions: with \<open>send_digest\<close>
  false and the environment at its default, the two candidates of two different users go
  out in one combined notice to "all"; with \<open>send_digest\<close> true and
  \<open>ROTATION_SNS_DIGEST=0\<close>, each user gets a notice of their own.
\<close>

theorem send_digest_ignored_counterexample:
  "send_digest (s_policy no_digest_scheduler) = False \<and>
   sent (dispatch_notifications sample_lib Map.empty no_digest_scheduler fresh_world
           [scenario_candidate, second_candidate])
     = [(''all'', [scenario_candidate, second_candidate], ''frequency 90d, grace 5d'')] \<and>
   send_digest (s_policy sample_scheduler) = True \<and>
   sent (dispatch_notifications sample_lib per_recipient_env sample_scheduler fresh_world
           [scenario_candidate, second_candidate])
     = [(''u1@example.org'', [scenario_candidate], ''frequency 90d, grace 5d''),
        (''u2@example.org'', [second_candidate], ''frequency 90d, grace 5d'')]"
proof -
  have "build_policy_summary (s_policy no_digest_scheduler) = ''frequency 90d, grace 5d''"
    by (simp add: no_digest_policy summary_send_digest build_policy_summary_scenario)
  then show ?thesis
    by (simp add: dispatch_digest_fresh_world dispatch_two_candidates no_digest_policy
        sample_policy scenario_policy_def)
qed

section \<open>Labels\<close>

text \<open>
  Claim C6, as amended. The label of a candidate is the generic type label with a prefix
  of the id, \<open>(Item) ID:\<close> followed by the first 8 characters of the id (the whole id when it
  is shorter, \<open>unknown\<close> when it is empty), exactly when the item's name contains both a
  \<open>.\<close> and a \<open>|\<close> or is longer than 60 characters. Otherwise the label is the name as it
  is, except that an empty name is rendered as \<open>(Unnamed)\<close>.
\<close>

theorem label_for_spec:
  "label_for c =
     (if (CHR ''|'' \<in> set (name (item c)) \<and> CHR ''.'' \<in> set (name (item c)))
          \<or> 60 < length (name (item c))
      then ''(Item) ID:'' @ (if id' (item c) = [] then ''unknown'' else take 8 (id' (item c)))
      else if name (item c) = [] then ''(Unnamed)'' else name (item c))"
  by (auto simp: label_for_def Let_def looks_encrypted_def type_label_def)

lemma label_for_ciphertext_scenario: "label_for ciphertext_candidate = ''(Item) ID:c0ffee00''"
  by (simp add: label_for_def Let_def looks_encrypted_def type_label_def ciphertext_candidate_def
      scenario_item_def)

text \<open>
  Claim C6 as the specification states it fails for an item with an empty name: the name
  has neither character and is not longer than 60, yet the label is \<open>(Unnamed)\<close> and not the
  name as it is.
\<close>

theorem label_for_empty_name_counterexample:
  "name (item unnamed_candidate) = [] \<and>
   CHR ''|'' \<notin> set (name (item unnamed_candidate)) \<and>
   length (name (item unnamed_candidate)) \<le> 60 \<and>
   label_for unnamed_candidate = ''(Unnamed)'' \<and>
   label_for unnamed_candidate \<noteq> name (item unnamed_candidate)"
  by (simp add: label_for_def Let_def looks_encrypted_def unnamed_candidate_def)

section \<open>Normalization is total\<close>

lemma parse_formats_total:
  "parsers_raise_only_ValueError lib \<Longrightarrow> \<exists>r. parse_formats lib v fmts = Inr r"
  by (induction fmts) (auto simp: parsers_raise_only_ValueError_def split: sum.splits)

lemma parse_timestamp_total:
  "parsers_raise_only_ValueError lib \<Longrightarrow> \<exists>r. parse_timestamp lib raw = Inr r"
  using parse_formats_total [of lib]
  by (auto simp: parse_timestamp_def Let_def parsers_raise_only_ValueError_def
      split: option.splits sum.splits)

lemma from_api_fields:
  assumes "parse_timestamp lib (Some (py_str lib (get_default p ''revisionDate'' (PStr [])))) = Inr r1"
    and "parse_timestamp lib (Some (py_str lib (get p ''passwordRotation''))) = Inr r2"
    and "parse_timestamp lib (Some (py_str lib (get p ''lastPasswordRotation''))) = Inr r3"
  shows "\<exists>it. from_api lib wall_now p = Inr it \<and>
           revision_date it = (case r1 of Some d \<Rightarrow> d | None \<Rightarrow> wall_now) \<and>
           last_rotated_at it = (if r2 = None then r3 else r2)"
  unfolding from_api_def Let_def assms by (cases r2) simp_all

text \<open>
  Claim C7. Given parsers that raise nothing but ValueError, normalization raises nothing:
  \<open>_parse_timestamp\<close> returns for every text, and \<open>from_api\<close> returns an item for every raw
  record. A missing or unparseable \<open>revisionDate\<close> makes the item's revision date the
  current time; rotation fields that do not parse leave \<open>last_rotated_at\<close> absent; and the
  effective rotation source of the item is a concrete timestamp, either the current time or
  what some text parsed to.
\<close>

theorem from_api_total:
  assumes lib: "parsers_raise_only_ValueError lib"
  shows "(\<exists>r. parse_timestamp lib raw = Inr r) \<and>
    (\<exists>it. from_api lib wall_now p = Inr it \<and>
       (p ''revisionDate'' = None \<longrightarrow> revision_date it = wall_now) \<and>
       (parse_timestamp lib (Some (py_str lib (get_default p ''revisionDate'' (PStr [])))) = Inr None
          \<longrightarrow> revision_date it = wall_now) \<and>
       (parse_timestamp lib (Some (py_str lib (get p ''passwordRotation''))) = Inr None \<and>
        parse_timestamp lib (Some (py_str lib (get p ''lastPasswordRotation''))) = Inr None
          \<longrightarrow> last_rotated_at it = None) \<and>
       (effective_rotation_source it = wall_now \<or>
        (\<exists>s. parse_timestamp lib (Some s) = Inr (Some (effective_rotation_source it)))))"
proof -
  let ?rev = "py_str lib (get_default p ''revisionDate'' (PStr []))"
  let ?rot1 = "py_str lib (get p ''passwordRotation'')"
  let ?rot2 = "py_str lib (get p ''lastPasswordRotation'')"
  obtain r1 where r1: "parse_timestamp lib (Some ?rev) = Inr r1"
    using parse_timestamp_total [OF lib] by blast
  obtain r2 where r2: "parse_timestamp lib (Some ?rot1) = Inr r2"
    using parse_timestamp_total [OF lib] by blast
  obtain r3 where r3: "parse_timestamp lib (Some ?rot2) = Inr r3"
    using parse_timestamp_total [OF lib] by blast
  obtain it where it: "from_api lib wall_now p = Inr it"
    and rev: "revision_date it = (case r1 of Some d \<Rightarrow> d | None \<Rightarrow> wall_now)"
    and rot: "last_rotated_at it = (if r2 = None then r3 else r2)"
    using from_api_fields [OF r1 r2 r3] by blast
  have missing: "p ''revisionDate'' = None \<longrightarrow> revision_date it = wall_now"
  proof
    assume "p ''revisionDate'' = None"
    then have "?rev = []"
      by (simp add: get_default_def)
    then have "parse_timestamp lib (Some ?rev) = Inr None"
      by (simp add: parse_timestamp_def)
    with r1 have "r1 = None" by simp
    with rev show "revision_date it = wall_now" by simp
  qed
  have unparseable: "parse_timestamp lib (Some ?rev) = Inr None \<longrightarrow> revision_date it = wall_now"
  proof
    assume "parse_timestamp lib (Some ?rev) = Inr None"
    with r1 have "r1 = None" by simp
    with rev show "revision_date it = wall_now" by simp
  qed
  have absent: "parse_timestamp lib (Some ?rot1) = Inr None \<and>
      parse_timestamp lib (Some ?rot2) = Inr None \<longrightarrow> last_rotated_at it = None"
  proof
    assume "parse_timestamp lib (Some ?rot1) = Inr None \<and>
      parse_timestamp lib (Some ?rot2) = Inr None"
    with r2 r3 have "r2 = None" "r3 = None" by simp_all
    with rot show "last_rotated_at it = None" by simp
  qed
  have concrete: "effective_rotation_source it = wall_now \<or>
      (\<exists>s. parse_timestamp lib (Some s) = Inr (Some (effective_rotation_source it)))"
  proof (cases "last_rotated_at it")
    case (Some d)
    then have e: "effective_rotation_source it = d"
      by (simp add: effective_rotation_source_def)
    have "parse_timestamp lib (Some ?rot1) = Inr (Some d) \<or>
        parse_timestamp lib (Some ?rot2) = Inr (Some d)"
    proof (cases "r2 = None")
      case True
      with rot Some have "r3 = Some d" by simp
      with r3 show ?thesis by simp
    next
      case False
      with rot Some have "r2 = Some d" by simp
      with r2 show ?thesis by simp
    qed
    then have "\<exists>s. parse_timestamp lib (Some s) = Inr (Some d)"
      by (elim disjE) (rule exI, assumption)+
    with e show ?thesis by simp
  next
    case None
    then have e: "effective_rotation_source it = revision_date it"
      by (simp add: effective_rotation_source_def)
    show ?thesis
    proof (cases r1)
      case None
      with rev e have "effective_rotation_source it = wall_now" by simp
      then show ?thesis by (rule disjI1)
    next
      case (Some d)
      with rev e have "effective_rotation_source it = d" by simp
      with r1 Some have "parse_timestamp lib (Some ?rev) = Inr (Some (effective_rotation_source it))"
        by simp
      then have "\<exists>s. parse_timestamp lib (Some s) = Inr (Some (effective_rotation_source it))"
        by (rule exI)
      then show ?thesis by (rule disjI2)
    qed
  qed
  have first: "\<exists>r. parse_timestamp lib raw = Inr r"
    by (rule parse_timestamp_total [OF lib])
  from it missing unparseable absent concrete
  have "from_api lib wall_now p = Inr it \<and>
       (p ''revisionDate'' = None \<longrightarrow> revision_date it = wall_now) \<and>
       (parse_timestamp lib (Some ?rev) = Inr None \<longrightarrow> revision_date it = wall_now) \<and>
       (parse_timestamp lib (Some ?rot1) = Inr None \<and>
        parse_timestamp lib (Some ?rot2) = Inr None \<longrightarrow> last_rotated_at it = None) \<and>
       (effective_rotation_source it = wall_now \<or>
        (\<exists>s. parse_timestamp lib (Some s) = Inr (Some (effective_rotation_source it))))"
    by (intro conjI)
  then have second: "\<exists>it. from_api lib wall_now p = Inr it \<and>
       (p ''revisionDate'' = None \<longrightarrow> revision_date it = wall_now) \<and>
       (parse_timestamp lib (Some ?rev) = Inr None \<longrightarrow> revision_date it = wall_now) \<and>
       (parse_timestamp lib (Some ?rot1) = Inr None \<and>
        parse_timestamp lib (Some ?rot2) = Inr None \<longrightarrow> last_rotated_at it = None) \<and>
       (effective_rotation_source it = wall_now \<or>
        (\<exists>s. parse_timestamp lib (Some s) = Inr (Some (effective_rotation_source it))))"
    by (rule exI)
  from first second show ?thesis by (rule conjI)
qed


lemma sample_lib_contract: "parsers_raise_only_ValueError sample_lib"
  by (simp add: parsers_raise_only_ValueError_def sample_lib_def)

lemma parse_malformed:
  "parse_timestamp sample_lib (Some ''yesterday'') = Inr None"
  "parse_timestamp sample_lib (Some ''31/12/2023'') = Inr None"
  by (simp_all add: parse_timestamp_def strip_def py_isspace_def endswith_def sample_lib_def
      formats_def)

theorem from_api_total_witness:
  "parsers_raise_only_ValueError sample_lib \<and>
   (\<exists>it. from_api sample_lib (utc_midnight 2024 3 26) malformed_payload = Inr it \<and>
      revision_date it = utc_midnight 2024 3 26 \<and> last_rotated_at it = None \<and>
      effective_rotation_source it = utc_midnight 2024 3 26)"
proof -
  have rev: "py_str sample_lib (get_default malformed_payload ''revisionDate'' (PStr []))
      = ''yesterday''"
    by (simp add: malformed_payload_def get_default_def)
  have rot1: "py_str sample_lib (get malformed_payload ''passwordRotation'') = ''31/12/2023''"
    by (simp add: malformed_payload_def get_def)
  have rot2: "py_str sample_lib (get malformed_payload ''lastPasswordRotation'') = ''None''"
    by (simp add: malformed_payload_def get_def)
  from from_api_total [OF sample_lib_contract, of None "utc_midnight 2024 3 26" malformed_payload]
  obtain it where it: "from_api sample_lib (utc_midnight 2024 3 26) malformed_payload = Inr it"
    and r: "revision_date it = utc_midnight 2024 3 26"
    and l: "last_rotated_at it = None"
    unfolding rev rot1 rot2 parse_malformed parse_None_text by blast
  have "effective_rotation_source it = utc_midnight 2024 3 26"
    using r l by (simp add: effective_rotation_source_def)
  with it r l sample_lib_contract show ?thesis by blast
qed

section \<open>The fingerprint and the order of the candidates\<close>

lemma json_dumps_entry:
  "json_dumps True (PDict [(''id'', PStr i), (''due'', PStr d)])
     = ''{'' @ json_string ''due'' @ '': '' @ json_string d @ '', ''
         @ json_string ''id'' @ '': '' @ json_string i @ ''}''"
  by (simp add: less_char_def)

lemma json_dumps_two_candidates:
  "json_dumps True (digest_payload lib [a, b])
     = ''['' @ json_dumps True (PDict [(''id'', PStr (id' (item a))),
                                       (''due'', PStr (isoformat lib (due_at a)))])
        @ '', '' @ json_dumps True (PDict [(''id'', PStr (id' (item b))),
                                          (''due'', PStr (isoformat lib (due_at b)))])
        @ '']''"
  by (simp add: digest_payload_def del: json_dumps.simps(6))

lemma json_string_scenario_id:
  "json_string ''c0ffee00-0001'' = CHR 0x22 # ''c0ffee00-0001'' @ [CHR 0x22]"
  by (simp add: json_string_def json_escape_char_def)

lemma json_string_second_id:
  "json_string ''c0ffee00-0003'' = CHR 0x22 # ''c0ffee00-0003'' @ [CHR 0x22]"
  by (simp add: json_string_def json_escape_char_def)

text \<open>
  Claim C1 says that permuting the candidate list leaves the fingerprint unchanged. The
  code sorts the keys of each pair but keeps the pairs in the order of the list, so the
  text that is hashed changes with the order: for the two candidates of the scenarios,
  the texts hashed for the list and for the swapped list differ, and the two fingerprints
  are equal only if SHA-256 maps these two different texts to the same digest.
\<close>

theorem fingerprint_depends_on_order:
  "json_dumps True (digest_payload lib [scenario_candidate, second_candidate])
     \<noteq> json_dumps True (digest_payload lib [second_candidate, scenario_candidate]) \<and>
   (digest_of lib [scenario_candidate, second_candidate]
      = digest_of lib [second_candidate, scenario_candidate])
     = (sha256_hexdigest lib (json_dumps True (digest_payload lib [scenario_candidate, second_candidate]))
          = sha256_hexdigest lib
              (json_dumps True (digest_payload lib [second_candidate, scenario_candidate])))"
proof
  show "json_dumps True (digest_payload lib [scenario_candidate, second_candidate])
      \<noteq> json_dumps True (digest_payload lib [second_candidate, scenario_candidate])"
    unfolding json_dumps_two_candidates json_dumps_entry
    by (simp add: scenario_candidate_def second_candidate_def scenario_item_def second_item_def
        json_string_scenario_id json_string_second_id)
  show "(digest_of lib [scenario_candidate, second_candidate]
      = digest_of lib [second_candidate, scenario_candidate])
     = (sha256_hexdigest lib (json_dumps True (digest_payload lib [scenario_candidate, second_candidate]))
          = sha256_hexdigest lib
              (json_dumps True (digest_payload lib [second_candidate, scenario_candidate])))"
    by (simp only: digest_of_def)
qed

end
